theory Spec2Isabelle
  imports Main "HOL-Library.AList" "HOL-Library.Sublist"
begin

section \<open>The front-end's data, as the parser sees it\<close>

text \<open>
  The parser (\<^verbatim>\<open>core/services/parser/clang_parser.py\<close>) works on the objects of the
  libclang binding: cursors, tokens, source locations, translation units. They are
  modelled as values. An attribute that the binding computes on demand
  (\<^verbatim>\<open>cursor.referenced\<close>, \<^verbatim>\<open>cursor.get_tokens()\<close>, the native child enumeration)
  is a field of the value.
\<close>

text \<open>Python exceptions that the modelled code can raise.\<close>

datatype exn =
    AttributeError
  | AssertionError
  | TranslationUnitLoadError
  | TranslationUnitSaveError
  | OSError

text \<open>
  \<^verbatim>\<open>clang.cindex.CursorKind\<close>: the kinds the parser names, and every other kind by its
  numeric id.
\<close>

datatype cursor_kind =
    NAMESPACE
  | CLASS_DECL
  | CLASS_TEMPLATE
  | CLASS_TEMPLATE_PARTIAL_SPECIALIZATION
  | STRUCT_DECL
  | ENUM_DECL
  | ENUM_CONSTANT_DECL
  | UNION_DECL
  | FIELD_DECL
  | VAR_DECL
  | FUNCTION_DECL
  | FUNCTION_TEMPLATE
  | CXX_METHOD
  | CONSTRUCTOR
  | DESTRUCTOR
  | PARM_DECL
  | TEMPLATE_TYPE_PARAMETER
  | TEMPLATE_NON_TYPE_PARAMETER
  | TEMPLATE_TEMPLATE_PARAMETER
  | MACRO_DEFINITION
  | MACRO_INSTANTIATION
  | TYPEDEF_DECL
  | TYPE_ALIAS_DECL
  | NAMESPACE_ALIAS
  | USING_DIRECTIVE
  | USING_DECLARATION
  | MEMBER_REF_EXPR
  | CALL_EXPR
  | OVERLOADED_DECL_REF
  | OTHER_CURSOR_KIND nat

text \<open>\<^verbatim>\<open>clang.cindex.TypeKind\<close>: only \<^verbatim>\<open>DEPENDENT\<close> is told apart.\<close>

datatype type_kind = DEPENDENT | OTHER_TYPE_KIND nat

text \<open>\<^verbatim>\<open>clang.cindex.TokenKind\<close>.\<close>

datatype token_kind = PUNCTUATION | KEYWORD | IDENTIFIER | LITERAL | COMMENT

text \<open>
  Modelled from the spec: the module \<^verbatim>\<open>services.parser.ast_node_identifier\<close> is not
  part of the sources; \<^verbatim>\<open>ASTNodeId.getNamespaceId()\<close> and its siblings return the
  members of the closed enumeration SemanticNodeId of the specification.
\<close>

datatype ast_node_id =
    NamespaceId
  | ClassId
  | StructId
  | EnumId
  | EnumValueId
  | UnionId
  | FieldId
  | LocalVariableId
  | FunctionId
  | MethodId
  | FunctionParameterId
  | TemplateTypeParameterId
  | TemplateNonTypeParameterId
  | TemplateTemplateParameterId
  | MacroDefinitionId
  | MacroInstantiationId
  | TypedefId
  | NamespaceAliasId
  | UsingDirectiveId
  | UsingDeclarationId
  | UnsupportedId

text \<open>\<^verbatim>\<open>clang.cindex.File\<close>: the parser reads only its name.\<close>

record cx_file =
  name :: string

text \<open>
  \<^verbatim>\<open>clang.cindex.SourceLocation\<close>. \<open>file_attr\<close> is the attribute \<^verbatim>\<open>file\<close>, which is
  \<^verbatim>\<open>None\<close> for a location outside any file. Line, column and offset are unsigned in
  the binding.
\<close>

record source_location =
  file_attr :: "cx_file option"
  line :: nat
  column :: nat
  offset :: nat

text \<open>\<^verbatim>\<open>clang.cindex.SourceRange\<close>.\<close>

record source_range =
  start :: source_location
  range_end :: source_location

text \<open>
  \<^verbatim>\<open>clang.cindex.Cursor\<close> and \<^verbatim>\<open>clang.cindex.Token\<close>.

  \<^descr> \<open>overloaded_decls\<close> is what \<^verbatim>\<open>clang_getNumOverloadedDecls\<close> counts and
    \<^verbatim>\<open>clang_getOverloadedDecl\<close> indexes.
  \<^descr> \<open>children\<close> is what \<^verbatim>\<open>clang_visitChildren\<close> enumerates.
  \<^descr> \<open>tu_attr\<close> is the attribute \<^verbatim>\<open>_tu\<close>: the spelling of the owning translation
    unit, or \<open>None\<close> when the object has none.
  \<^descr> \<open>ast_parent\<close> is the attribute that only \<^verbatim>\<open>traverse\<close> assigns. The binding's
    \<^verbatim>\<open>Cursor\<close> has no such attribute of its own (the module's note on the patched
    \<^verbatim>\<open>get_children\<close> says so), hence \<open>None\<close> means that the attribute does not exist
    on the object and reading it raises \<^verbatim>\<open>AttributeError\<close>; \<open>Some None\<close> is the
    Python value \<^verbatim>\<open>None\<close>; \<open>Some (Some p)\<close> is the cursor \<open>p\<close>.
\<close>

datatype cursor = Cursor
    (kind: cursor_kind)
    (spelling: string)
    (type_kind: type_kind)
    (location: source_location)
    (extent: source_range)
    (referenced: "cursor option")
    (overloaded_decls: "cursor list")
    (get_usr: string)
    (get_tokens: "token list")
    (children: "cursor list")
    (tu_attr: "string option")
    (ast_parent: "cursor option option")
and token = Token
    (tok_kind: token_kind)
    (tok_spelling: string)
    (tok_location: source_location)
    (tok_extent: source_range)
    (tok_cursor: cursor)

section \<open>Classification\<close>

text \<open>\<^verbatim>\<open>ClangParser.to_ast_node_id\<close>: the chain of tests, in the source's order.\<close>

definition to_ast_node_id :: "cursor_kind \<Rightarrow> ast_node_id" where
  "to_ast_node_id k =
    (if k = NAMESPACE then NamespaceId
     else if k \<in> set [CLASS_DECL, CLASS_TEMPLATE, CLASS_TEMPLATE_PARTIAL_SPECIALIZATION] then ClassId
     else if k = STRUCT_DECL then StructId
     else if k = ENUM_DECL then EnumId
     else if k = ENUM_CONSTANT_DECL then EnumValueId
     else if k = UNION_DECL then UnionId
     else if k = FIELD_DECL then FieldId
     else if k = VAR_DECL then LocalVariableId
     else if k \<in> set [FUNCTION_DECL, FUNCTION_TEMPLATE] then FunctionId
     else if k \<in> set [CXX_METHOD, CONSTRUCTOR, DESTRUCTOR] then MethodId
     else if k = PARM_DECL then FunctionParameterId
     else if k = TEMPLATE_TYPE_PARAMETER then TemplateTypeParameterId
     else if k = TEMPLATE_NON_TYPE_PARAMETER then TemplateNonTypeParameterId
     else if k = TEMPLATE_TEMPLATE_PARAMETER then TemplateTemplateParameterId
     else if k = MACRO_DEFINITION then MacroDefinitionId
     else if k = MACRO_INSTANTIATION then MacroInstantiationId
     else if k \<in> set [TYPEDEF_DECL, TYPE_ALIAS_DECL] then TypedefId
     else if k = NAMESPACE_ALIAS then NamespaceAliasId
     else if k = USING_DIRECTIVE then UsingDirectiveId
     else if k = USING_DECLARATION then UsingDeclarationId
     else UnsupportedId)"


text \<open>
  The test that the three dependent-type extractors apply to a token of the cursor:
  an identifier whose own cursor is a member reference with the cursor's extent.
\<close>

definition qualifying_token :: "cursor \<Rightarrow> token \<Rightarrow> bool" where
  "qualifying_token c t \<longleftrightarrow>
     tok_kind t = IDENTIFIER \<and> kind (tok_cursor t) = MEMBER_REF_EXPR
       \<and> extent (tok_cursor t) = extent c"

text \<open>
  \<^verbatim>\<open>ClangParser.__extract_dependent_type_kind\<close>. The assertion comes first; then, for a
  member reference, \<^verbatim>\<open>cursor.ast_parent\<close> is read before any token is looked at. Each
  \<^verbatim>\<open>for\<close> loop returns at the first qualifying token and falls through to
  \<^verbatim>\<open>return cursor.kind\<close> when there is none.
\<close>

definition extract_dependent_type_kind :: "cursor \<Rightarrow> exn + cursor_kind" where
  "extract_dependent_type_kind c =
    (if type_kind c \<noteq> DEPENDENT then Inl AssertionError
     else if kind c = MEMBER_REF_EXPR then
       (case ast_parent c of
          None \<Rightarrow> Inl AttributeError
        | Some parent \<Rightarrow>
            if (case parent of None \<Rightarrow> False | Some p \<Rightarrow> kind p = CALL_EXPR) then
              (case find (qualifying_token c) (get_tokens c) of
                 Some t \<Rightarrow> Inr CXX_METHOD
               | None \<Rightarrow> Inr (kind c))
            else
              (case find (qualifying_token c) (get_tokens c) of
                 Some t \<Rightarrow> Inr FIELD_DECL
               | None \<Rightarrow> Inr (kind c)))
     else Inr (kind c))"

text \<open>\<^verbatim>\<open>ClangParser.__extract_dependent_type_spelling\<close>.\<close>

definition extract_dependent_type_spelling :: "cursor \<Rightarrow> exn + string" where
  "extract_dependent_type_spelling c =
    (if type_kind c \<noteq> DEPENDENT then Inl AssertionError
     else if kind c = MEMBER_REF_EXPR then
       (case find (qualifying_token c) (get_tokens c) of
          Some t \<Rightarrow> Inr (tok_spelling t)
        | None \<Rightarrow> Inr (spelling c))
     else Inr (spelling c))"

text \<open>\<^verbatim>\<open>ClangParser.__extract_dependent_type_location\<close>.\<close>

definition extract_dependent_type_location :: "cursor \<Rightarrow> exn + source_location" where
  "extract_dependent_type_location c =
    (if type_kind c \<noteq> DEPENDENT then Inl AssertionError
     else if kind c = MEMBER_REF_EXPR then
       (case find (qualifying_token c) (get_tokens c) of
          Some t \<Rightarrow> Inr (tok_location t)
        | None \<Rightarrow> Inr (location c))
     else Inr (location c))"

text \<open>
  \<^verbatim>\<open>ClangParser.get_ast_node_id\<close>. \<^verbatim>\<open>__get_num_overloaded_decls\<close> is the length of
  \<open>overloaded_decls\<close>, and \<^verbatim>\<open>__get_overloaded_decl(c, 0)\<close> its head, read only when
  the count is not zero.
\<close>

definition get_ast_node_id :: "cursor \<Rightarrow> exn + ast_node_id" where
  "get_ast_node_id c =
    (if type_kind c = DEPENDENT then
       (case extract_dependent_type_kind c of
          Inl e \<Rightarrow> Inl e
        | Inr k \<Rightarrow> Inr (to_ast_node_id k))
     else
       (case referenced c of
          Some r \<Rightarrow>
            if kind r = OVERLOADED_DECL_REF \<and> length (overloaded_decls r) \<noteq> 0
            then Inr (to_ast_node_id (kind (hd (overloaded_decls r))))
            else Inr (to_ast_node_id (kind r))
        | None \<Rightarrow>
            if kind c = OVERLOADED_DECL_REF \<and> length (overloaded_decls c) \<noteq> 0
            then Inr (to_ast_node_id (kind (hd (overloaded_decls c))))
            else Inr (to_ast_node_id (kind c))))"


section \<open>The translation unit store\<close>

text \<open>
  \<^verbatim>\<open>clang.cindex.TranslationUnit\<close>: its spelling, its root cursor and its diagnostics.
\<close>

record translation_unit =
  tu_spelling :: string
  tu_cursor :: cursor
  diagnostics :: "string list"

text \<open>
  \<^verbatim>\<open>ClangParser\<close>. The dictionary \<^verbatim>\<open>self.tunits\<close> is a list of pairs with distinct keys,
  in the order in which \<^verbatim>\<open>iteritems()\<close> yields them; \<^verbatim>\<open>self.tunits[k] = v\<close> is
  \<open>AList.update k v\<close> and a lookup is \<open>map_of\<close>. \<^verbatim>\<open>self.index\<close> has no state of its
  own: its methods \<^verbatim>\<open>parse\<close> and \<^verbatim>\<open>read\<close> are parameters of the operations that call
  them.
\<close>

record clang_parser =
  tunits :: "(string \<times> translation_unit) list"
  default_args :: "string list"

text \<open>
  \<^verbatim>\<open>ClangParser.run\<close>. \<open>index_parse path args\<close> is \<^verbatim>\<open>self.index.parse\<close>, which returns a
  translation unit or raises. The right-hand side of the assignment is evaluated
  first, so nothing is stored when it raises; the bare \<^verbatim>\<open>except\<close> logs and goes on.
  The result is \<open>Inr\<close> of the parser's new state: no branch of the method raises.
\<close>

definition run ::
  "(string \<Rightarrow> string list \<Rightarrow> exn + translation_unit) \<Rightarrow> clang_parser \<Rightarrow>
     string \<Rightarrow> string \<Rightarrow> string list \<Rightarrow> string \<Rightarrow> exn + clang_parser" where
  "run index_parse self contents_filename original_filename compiler_args project_root_directory =
    (case index_parse contents_filename
            (default_args self @ compiler_args
               @ [''-working-directory='' @ project_root_directory]) of
       Inr tu \<Rightarrow> Inr (self\<lparr>tunits := AList.update original_filename tu (tunits self)\<rparr>)
     | Inl e \<Rightarrow> Inr self)"

text \<open>\<^verbatim>\<open>ClangParser.get_translation_unit\<close>: \<^verbatim>\<open>self.tunits.get(filename, None)\<close>.\<close>

definition get_translation_unit :: "clang_parser \<Rightarrow> string \<Rightarrow> translation_unit option" where
  "get_translation_unit self filename = map_of (tunits self) filename"

text \<open>\<^verbatim>\<open>ClangParser.drop_translation_unit\<close> and \<^verbatim>\<open>ClangParser.drop_all_translation_units\<close>.\<close>

definition drop_translation_unit :: "clang_parser \<Rightarrow> string \<Rightarrow> clang_parser" where
  "drop_translation_unit self filename = self\<lparr>tunits := AList.delete filename (tunits self)\<rparr>"

definition drop_all_translation_units :: "clang_parser \<Rightarrow> clang_parser" where
  "drop_all_translation_units self = self\<lparr>tunits := []\<rparr>"

section \<open>Hashable source locations\<close>

text \<open>
  Modelled from the spec: \<^verbatim>\<open>clang.cindex.SourceLocation.__eq__\<close> is the binding's, not
  the repository's. The specification's data model says that two locations are equal
  iff file identity, line, column and byte offset all match.
\<close>

definition location_eq :: "source_location \<Rightarrow> source_location \<Rightarrow> bool" where
  "location_eq a b \<longleftrightarrow>
     file_attr a = file_attr b \<and> line a = line b \<and> column a = column b \<and> offset a = offset b"

text \<open>\<^verbatim>\<open>ImmutableSourceLocation\<close>: a wrapper around one \<^verbatim>\<open>SourceLocation\<close>.\<close>

datatype immutable_source_location =
  ImmutableSourceLocation (source_location: source_location)

text \<open>\<^verbatim>\<open>ImmutableSourceLocation.__eq__\<close> and \<^verbatim>\<open>__ne__\<close>.\<close>

definition isl_eq :: "immutable_source_location \<Rightarrow> immutable_source_location \<Rightarrow> bool" where
  "isl_eq self other = location_eq (source_location self) (source_location other)"

definition isl_ne :: "immutable_source_location \<Rightarrow> immutable_source_location \<Rightarrow> bool" where
  "isl_ne self other = (\<not> isl_eq self other)"

text \<open>
  \<^verbatim>\<open>ImmutableSourceLocation.__hash__\<close>: the exclusive or of the hashes of the file's
  name, the line, the column and the offset. \<open>hash_str\<close> is Python's hash of a string
  and \<open>hash_int\<close> its hash of an integer, both parameters. Reading \<^verbatim>\<open>.name\<close> of the
  file \<^verbatim>\<open>None\<close> raises \<^verbatim>\<open>AttributeError\<close>.
\<close>

definition isl_hash ::
  "(string \<Rightarrow> int) \<Rightarrow> (nat \<Rightarrow> int) \<Rightarrow> immutable_source_location \<Rightarrow> exn + int" where
  "isl_hash hash_str hash_int self =
    (case file_attr (source_location self) of
       None \<Rightarrow> Inl AttributeError
     | Some f \<Rightarrow>
         Inr (xor (xor (xor (hash_str (name f)) (hash_int (line (source_location self))))
                (hash_int (column (source_location self))))
              (hash_int (offset (source_location self)))))"

section \<open>Traversal\<close>

text \<open>\<^verbatim>\<open>ChildVisitResult\<close>: \<^verbatim>\<open>BREAK\<close> is 0, \<^verbatim>\<open>CONTINUE\<close> is 1, \<^verbatim>\<open>RECURSE\<close> is 2.\<close>

datatype child_visit_result = BREAK | CONTINUE | RECURSE

text \<open>
  \<^verbatim>\<open>clang_visitChildren\<close>, the binding's child enumeration: depth first, the visitor
  called with each child and its parent. \<^verbatim>\<open>BREAK\<close> ends the whole walk, \<^verbatim>\<open>CONTINUE\<close>
  goes to the next sibling, \<^verbatim>\<open>RECURSE\<close> walks the child's children first. The client
  data is a Python object that the visitor mutates; here the visitor returns it. The
  boolean says whether the walk was broken off.
\<close>

fun visit_list ::
  "(cursor \<Rightarrow> cursor \<Rightarrow> 'd \<Rightarrow> child_visit_result \<times> 'd) \<Rightarrow> cursor \<Rightarrow> cursor list \<Rightarrow> 'd \<Rightarrow> bool \<times> 'd"
where
  "visit_list v parent [] d = (False, d)"
| "visit_list v parent (Cursor k sp ty lo ex re ov us tk ch tu ap # cs) d =
    (case v (Cursor k sp ty lo ex re ov us tk ch tu ap) parent d of
       (BREAK, d') \<Rightarrow> (True, d')
     | (CONTINUE, d') \<Rightarrow> visit_list v parent cs d'
     | (RECURSE, d') \<Rightarrow>
         (case visit_list v (Cursor k sp ty lo ex re ov us tk ch tu ap) ch d' of
            (True, d'') \<Rightarrow> (True, d'')
          | (False, d'') \<Rightarrow> visit_list v parent cs d''))"

definition clang_visitChildren ::
  "cursor \<Rightarrow> (cursor \<Rightarrow> cursor \<Rightarrow> 'd \<Rightarrow> child_visit_result \<times> 'd) \<Rightarrow> 'd \<Rightarrow> bool \<times> 'd" where
  "clang_visitChildren c v d = visit_list v c (children c) d"

text \<open>The two assignments of the inner visitor of \<^verbatim>\<open>traverse\<close>.\<close>

fun set_tu_attr :: "string option \<Rightarrow> cursor \<Rightarrow> cursor" where
  "set_tu_attr t (Cursor k sp ty lo ex re ov us tk ch tu ap) =
     Cursor k sp ty lo ex re ov us tk ch t ap"

fun set_ast_parent :: "cursor option \<Rightarrow> cursor \<Rightarrow> cursor" where
  "set_ast_parent p (Cursor k sp ty lo ex re ov us tk ch tu ap) =
     Cursor k sp ty lo ex re ov us tk ch tu (Some p)"

text \<open>
  The module's \<^verbatim>\<open>traverse\<close>: the inner visitor sets \<^verbatim>\<open>child._tu\<close> to the \<^verbatim>\<open>_tu\<close> of the
  cursor the traversal started from, and \<^verbatim>\<open>child.ast_parent\<close> to the parent that the
  enumeration hands over, then calls the client's visitor with that child. (The
  enumeration never yields the null cursor, so the \<^verbatim>\<open>assert\<close> holds.)
\<close>

definition traverse ::
  "cursor \<Rightarrow> 'd \<Rightarrow> (cursor \<Rightarrow> cursor \<Rightarrow> 'd \<Rightarrow> child_visit_result \<times> 'd) \<Rightarrow> bool \<times> 'd" where
  "traverse cursor client_data client_visitor =
     clang_visitChildren cursor
       (\<lambda>child parent data.
          client_visitor (set_ast_parent (Some parent) (set_tu_attr (tu_attr cursor) child))
            parent data)
       client_data"

text \<open>\<^verbatim>\<open>default_visitor\<close>.\<close>

definition default_visitor :: "cursor \<Rightarrow> cursor \<Rightarrow> 'd \<Rightarrow> child_visit_result \<times> 'd" where
  "default_visitor child parent client_data = (CONTINUE, client_data)"

text \<open>
  \<^verbatim>\<open>get_children_patched\<close>: the visitor appends each child to the list and returns
  the given traversal type.
\<close>

definition get_children_patched :: "cursor \<Rightarrow> child_visit_result \<Rightarrow> cursor list" where
  "get_children_patched self traversal_type =
     snd (traverse self [] (\<lambda>child parent children. (traversal_type, children @ [child])))"

section \<open>Finding references\<close>

text \<open>
  The value \<^verbatim>\<open>find_all_references\<close> returns: the list literal of its early return, or
  the set it collects into.
\<close>

datatype py_collection =
    PyList "immutable_source_location list"
  | PySet "immutable_source_location set"

text \<open>The locations a returned collection holds.\<close>

fun elements :: "py_collection \<Rightarrow> immutable_source_location set" where
  "elements (PyList xs) = set xs"
| "elements (PySet s) = s"

text \<open>The named tuple \<^verbatim>\<open>client_data\<close> of \<^verbatim>\<open>find_all_references\<close>.\<close>

record client_data =
  cd_cursor :: cursor
  cd_references :: "immutable_source_location set"

text \<open>
  The inner \<^verbatim>\<open>visitor\<close> of \<^verbatim>\<open>find_all_references\<close>. It reads the variable \<^verbatim>\<open>filename\<close>
  of the enclosing call, here its first argument. The token loop stops at the first
  token that starts at the node's location, and adds the location when that token
  spells the node's name.
\<close>

definition visitor ::
  "string \<Rightarrow> cursor \<Rightarrow> cursor \<Rightarrow> client_data \<Rightarrow> child_visit_result \<times> client_data" where
  "visitor filename ast_node ast_parent_node client_data =
    (if (case file_attr (location ast_node) of None \<Rightarrow> False | Some f \<Rightarrow> name f = filename) then
       (let node = (case referenced ast_node of Some r \<Rightarrow> r | None \<Rightarrow> ast_node) in
        if spelling node = spelling (cd_cursor client_data) then
          if get_usr node = get_usr (cd_cursor client_data) then
            (case find (\<lambda>t. location_eq (location ast_node) (start (tok_extent t)))
                    (get_tokens ast_node) of
               Some t \<Rightarrow>
                 if spelling node = tok_spelling t then
                   (RECURSE, client_data\<lparr>cd_references :=
                      insert (ImmutableSourceLocation (location ast_node))
                        (cd_references client_data)\<rparr>)
                 else (RECURSE, client_data)
             | None \<Rightarrow> (RECURSE, client_data))
          else (RECURSE, client_data)
        else (RECURSE, client_data))
     else (RECURSE, client_data))"

text \<open>
  The loop \<^verbatim>\<open>for filename, tunit in self.tunits.iteritems()\<close> of
  \<^verbatim>\<open>find_all_references\<close>. Its target \<^verbatim>\<open>filename\<close> is the very variable that the inner
  visitor reads (the method's parameter, a cell shared with the closure): in each
  round the visitor compares with the key of the translation unit being walked.
  \<^verbatim>\<open>ClangParser.traverse\<close> drops the result of the module's \<^verbatim>\<open>traverse\<close>.
\<close>

fun references_loop ::
  "cursor \<Rightarrow> (string \<times> translation_unit) list \<Rightarrow> immutable_source_location set \<Rightarrow>
     immutable_source_location set" where
  "references_loop target [] references = references"
| "references_loop target ((filename, tunit) # rest) references =
     references_loop target rest
       (cd_references (snd (traverse (tu_cursor tunit)
          \<lparr>cd_cursor = target, cd_references = references\<rparr> (visitor filename))))"

text \<open>
  \<^verbatim>\<open>ClangParser.find_all_references\<close>. \<open>from_location tu file line column\<close> stands for
  \<^verbatim>\<open>Cursor.from_location(tu, SourceLocation.from_position(tu, File.from_name(tu, file),
  line, column))\<close>, the front-end's lookup, which yields a cursor or raises.
\<close>

definition find_all_references ::
  "(translation_unit \<Rightarrow> string \<Rightarrow> int \<Rightarrow> int \<Rightarrow> exn + cursor) \<Rightarrow> clang_parser \<Rightarrow>
     string \<Rightarrow> int \<Rightarrow> int \<Rightarrow> exn + py_collection" where
  "find_all_references from_location self filename line_no column_no =
    (case map_of (tunits self) filename of
       None \<Rightarrow> Inr (PyList [])
     | Some tu \<Rightarrow>
         (case from_location tu (tu_spelling tu) line_no column_no of
            Inl e \<Rightarrow> Inl e
          | Inr cursor \<Rightarrow>
              Inr (PySet (references_loop
                     (case referenced cursor of Some r \<Rightarrow> r | None \<Rightarrow> cursor)
                     (tunits self) {}))))"

text \<open>
  The nodes that a walk in which every visitor call answers \<^verbatim>\<open>RECURSE\<close> visits, in
  the order of the visits: each cursor of the list, then the nodes below it, then its
  later siblings. \<open>descendants\<close> are the nodes that \<^verbatim>\<open>traverse\<close> visits from a cursor.
\<close>

fun nodes_below :: "cursor list \<Rightarrow> cursor list" where
  "nodes_below [] = []"
| "nodes_below (Cursor k sp ty lo ex re ov us tk ch tu ap # cs) =
     Cursor k sp ty lo ex re ov us tk ch tu ap # nodes_below ch @ nodes_below cs"

definition descendants :: "cursor \<Rightarrow> cursor list" where
  "descendants c = nodes_below (children c)"

text \<open>
  The nested conditions of the inner \<^verbatim>\<open>visitor\<close> under which it adds the node's
  location, for a walk of the unit stored under \<open>unit_key\<close> in search of \<open>target\<close>: the
  node's location has a file of that name, the node (or what it refers to) has the
  target's spelling and USR, and the first token that starts at the node's location
  spells that name. \<open>confirmed_locations\<close> wraps the locations of the confirmed nodes
  of a list.
\<close>

definition confirmed :: "string \<Rightarrow> cursor \<Rightarrow> cursor \<Rightarrow> bool" where
  "confirmed unit_key target ast_node \<longleftrightarrow>
     (case file_attr (location ast_node) of None \<Rightarrow> False | Some f \<Rightarrow> name f = unit_key)
     \<and> (let node = (case referenced ast_node of Some r \<Rightarrow> r | None \<Rightarrow> ast_node) in
          spelling node = spelling target \<and> get_usr node = get_usr target
          \<and> (case find (\<lambda>t. location_eq (location ast_node) (start (tok_extent t)))
                     (get_tokens ast_node) of
                Some t \<Rightarrow> spelling node = tok_spelling t
              | None \<Rightarrow> False))"

definition confirmed_locations ::
  "string \<Rightarrow> cursor \<Rightarrow> cursor list \<Rightarrow> immutable_source_location list" where
  "confirmed_locations unit_key target nodes =
     map (\<lambda>n. ImmutableSourceLocation (location n)) (filter (confirmed unit_key target) nodes)"

section \<open>Saving to disk and loading from disk\<close>

text \<open>\<^verbatim>\<open>os.path.join\<close> with two arguments (\<^verbatim>\<open>posixpath\<close>).\<close>

definition os_path_join :: "string \<Rightarrow> string \<Rightarrow> string" where
  "os_path_join a b =
    (if b \<noteq> [] \<and> hd b = CHR ''/'' then b
     else if a = [] \<or> last a = CHR ''/'' then a @ b
     else a @ ''/'' @ b)"

text \<open>
  \<^verbatim>\<open>os.path.dirname\<close>: everything up to the last \<^verbatim>\<open>/\<close>, without trailing slashes unless
  it consists of slashes only.
\<close>

definition os_path_dirname :: "string \<Rightarrow> string" where
  "os_path_dirname p =
    (let head = rev (dropWhile (\<lambda>c. c \<noteq> CHR ''/'') (rev p)) in
     if head \<noteq> [] \<and> \<not> list_all (\<lambda>c. c = CHR ''/'') head
     then rev (dropWhile (\<lambda>c. c = CHR ''/'') (rev head))
     else head)"

text \<open>\<^verbatim>\<open>os.path.basename\<close>: everything after the last \<^verbatim>\<open>/\<close>.\<close>

definition os_path_basename :: "string \<Rightarrow> string" where
  "os_path_basename p = rev (takeWhile (\<lambda>c. c \<noteq> CHR ''/'') (rev p))"

text \<open>
  \<^verbatim>\<open>os.path.splitext\<close>: the extension starts at the last dot of the last component,
  provided some character before that dot in the component is not a dot.
\<close>

definition os_path_splitext :: "string \<Rightarrow> string \<times> string" where
  "os_path_splitext p =
    (let base = os_path_basename p;
         ext = rev (takeWhile (\<lambda>c. c \<noteq> CHR ''.'') (rev base));
         stem = take (length base - length ext - 1) base
     in if CHR ''.'' \<in> set base \<and> list_ex (\<lambda>c. c \<noteq> CHR ''.'') stem
        then (take (length p - length ext - 1) p, drop (length p - length ext - 1) p)
        else (p, []))"

text \<open>
  What the two methods ask of the operating system and of the front-end:
  \<^verbatim>\<open>os.path.exists\<close>, \<^verbatim>\<open>os.makedirs\<close>, \<^verbatim>\<open>TranslationUnit.save\<close>, \<^verbatim>\<open>os.walk\<close> and
  \<^verbatim>\<open>Index.read\<close>. They are parameters of the methods here. \<open>'w\<close> is the state of the file
  system. An operation that changes it returns the exception it raises, if any, and
  the state it leaves behind, which after an exception need not be the state before;
  \<^verbatim>\<open>Index.read\<close> returns an exception or its result. \<^verbatim>\<open>os.walk\<close> gives its triples (the path of a
  directory, the names of its subdirectories, the names of its other entries) in the
  order in which the generator yields them; the loop body of \<^verbatim>\<open>load_from_disk\<close> changes
  nothing on disk, so the walk is the same whether it is made lazily or at once.
  Nothing is fixed about these operations: symbolic links, permissions and the
  spelling of paths are whatever the given operations make of them.
\<close>

record 'w os_ops =
  os_path_exists :: "'w \<Rightarrow> string \<Rightarrow> bool"
  os_makedirs :: "'w \<Rightarrow> string \<Rightarrow> exn option \<times> 'w"
  tu_save :: "'w \<Rightarrow> translation_unit \<Rightarrow> string \<Rightarrow> exn option \<times> 'w"
  os_walk :: "'w \<Rightarrow> string \<Rightarrow> (string \<times> string list \<times> string list) list"
  index_read :: "'w \<Rightarrow> string \<Rightarrow> exn + translation_unit"

text \<open>
  \<^verbatim>\<open>ClangParser.save_to_disk\<close>: the loop, and the method with its \<^verbatim>\<open>try\<close>. The loop
  stops at the first exception with the disk as it is by then; the method returns
  \<^verbatim>\<open>False\<close> then and \<^verbatim>\<open>True\<close> otherwise. \<^verbatim>\<open>filename[1:len(filename)]\<close> is
  \<open>drop 1 filename\<close>.
\<close>

fun save_loop ::
  "'w os_ops \<Rightarrow> string \<Rightarrow> (string \<times> translation_unit) list \<Rightarrow> 'w \<Rightarrow> exn option \<times> 'w" where
  "save_loop os root_dir [] w = (None, w)"
| "save_loop os root_dir ((filename, tunit) # rest) w =
    (let directory = os_path_dirname (os_path_join root_dir (drop 1 filename)) in
     case (if \<not> os_path_exists os w directory then os_makedirs os w directory else (None, w)) of
       (Some e, w1) \<Rightarrow> (Some e, w1)
     | (None, w1) \<Rightarrow>
         (case tu_save os w1 tunit (os_path_join root_dir (drop 1 filename @ ''.ast'')) of
            (Some e, w2) \<Rightarrow> (Some e, w2)
          | (None, w2) \<Rightarrow> save_loop os root_dir rest w2))"

definition save_to_disk :: "'w os_ops \<Rightarrow> 'w \<Rightarrow> clang_parser \<Rightarrow> string \<Rightarrow> bool \<times> 'w" where
  "save_to_disk os w self root_dir =
    (case save_loop os root_dir (tunits self) w of
       (None, w') \<Rightarrow> (True, w')
     | (Some e, w') \<Rightarrow> (False, w'))"

text \<open>
  \<^verbatim>\<open>ClangParser.load_from_disk\<close>: the inner loop over the files of one directory, the
  outer loop over the triples of the walk, and the method, which clears \<^verbatim>\<open>self.tunits\<close>
  first. The slice \<^verbatim>\<open>s[len(root_dir):-len('.ast')]\<close> is \<open>drop (length root_dir) (take
  (length s - 4) s)\<close>. An exception of \<^verbatim>\<open>Index.read\<close> ends the loops with the entries
  stored so far, and the method returns \<^verbatim>\<open>False\<close>.
\<close>

fun load_files ::
  "'w os_ops \<Rightarrow> 'w \<Rightarrow> string \<Rightarrow> string \<Rightarrow> string list \<Rightarrow> (string \<times> translation_unit) list \<Rightarrow>
     exn option \<times> (string \<times> translation_unit) list" where
  "load_files os w root_dir dirpath [] tus = (None, tus)"
| "load_files os w root_dir dirpath (file # files) tus =
    (let (name, extension) = os_path_splitext file in
     if extension = ''.ast'' then
       (let parsing_result_filename = os_path_join dirpath file;
            original_filename =
              drop (length root_dir)
                (take (length parsing_result_filename - length ''.ast'') parsing_result_filename)
        in case index_read os w parsing_result_filename of
             Inl e \<Rightarrow> (Some e, tus)
           | Inr tu \<Rightarrow>
               load_files os w root_dir dirpath files (AList.update original_filename tu tus))
     else load_files os w root_dir dirpath files tus)"

fun load_walk ::
  "'w os_ops \<Rightarrow> 'w \<Rightarrow> string \<Rightarrow> (string \<times> string list \<times> string list) list \<Rightarrow>
     (string \<times> translation_unit) list \<Rightarrow> exn option \<times> (string \<times> translation_unit) list" where
  "load_walk os w root_dir [] tus = (None, tus)"
| "load_walk os w root_dir ((dirpath, dirs, files) # rest) tus =
    (case load_files os w root_dir dirpath files tus of
       (Some e, tus') \<Rightarrow> (Some e, tus')
     | (None, tus') \<Rightarrow> load_walk os w root_dir rest tus')"

definition load_from_disk :: "'w os_ops \<Rightarrow> 'w \<Rightarrow> clang_parser \<Rightarrow> string \<Rightarrow> bool \<times> clang_parser" where
  "load_from_disk os w self root_dir =
    (case load_walk os w root_dir (os_walk os w root_dir) [] of
       (None, tus) \<Rightarrow> (True, self\<lparr>tunits := tus\<rparr>)
     | (Some e, tus) \<Rightarrow> (False, self\<lparr>tunits := tus\<rparr>))"

text \<open>
  The artifacts of a walk: the paths, as \<^verbatim>\<open>load_from_disk\<close> joins them, of the entries
  with the extension \<^verbatim>\<open>.ast\<close>. These are the paths it hands to \<^verbatim>\<open>Index.read\<close>.
\<close>

definition artifact_paths :: "(string \<times> string list \<times> string list) list \<Rightarrow> string list" where
  "artifact_paths walk =
     concat (map (\<lambda>(dirpath, dirs, files).
                    map (os_path_join dirpath)
                      (filter (\<lambda>file. snd (os_path_splitext file) = ''.ast'') files)) walk)"

text \<open>
  The components of a path, and the keys for which the layout on disk is made: a
  \<^verbatim>\<open>/\<close> followed by components none of which is empty or consists of dots only.
\<close>

function components :: "string \<Rightarrow> string list" where
  "components s =
    (if CHR ''/'' \<in> set s
     then takeWhile (\<lambda>c. c \<noteq> CHR ''/'') s # components (tl (dropWhile (\<lambda>c. c \<noteq> CHR ''/'') s))
     else [s])"
  by pat_completeness auto
termination
proof (relation "measure length")
  fix s :: string
  assume "CHR ''/'' \<in> set s"
  then have "dropWhile (\<lambda>c. c \<noteq> CHR ''/'') s \<noteq> []" by simp
  then have "length (tl (dropWhile (\<lambda>c. c \<noteq> CHR ''/'') s))
               < length (dropWhile (\<lambda>c. c \<noteq> CHR ''/'') s)"
    by (cases "dropWhile (\<lambda>c. c \<noteq> CHR ''/'') s") simp_all
  also have "\<dots> \<le> length s" by (rule length_dropWhile_le)
  finally show "(tl (dropWhile (\<lambda>c. c \<noteq> CHR ''/'') s), s) \<in> measure length" by simp
qed simp

declare components.simps [simp del]


section \<open>A file system without symbolic links\<close>

text \<open>
  One implementation of the operations, on which the methods are run below: a tree of
  directories and regular files. A regular file holds a serialized translation unit
  or something else; a directory lists its entries by name. The state is the root
  directory. There are no symbolic links and no permissions, and a relative path
  starts at the root.
\<close>

datatype file_content = Serialized translation_unit | OtherContent

datatype node = File file_content | Dir "(string \<times> node) list"

text \<open>
  The node under a list of names, and the tree with the node under a list of names
  replaced. Names are looked up from the front of a directory's list.
\<close>

primrec lookup :: "string list \<Rightarrow> node \<Rightarrow> node option" where
  "lookup [] n = Some n"
| "lookup (x # xs) n =
    (case n of
       File c \<Rightarrow> None
     | Dir es \<Rightarrow> (case map_of es x of None \<Rightarrow> None | Some m \<Rightarrow> lookup xs m))"

primrec update_at :: "string list \<Rightarrow> (node \<Rightarrow> node) \<Rightarrow> node \<Rightarrow> node" where
  "update_at [] f n = f n"
| "update_at (x # xs) f n =
    (case n of
       File c \<Rightarrow> File c
     | Dir es \<Rightarrow> Dir (AList.map_entry x (update_at xs f) es))"

text \<open>
  Path resolution. The components of the path are followed from the directory under
  \<open>cur\<close>: an empty component (from a leading, doubled or trailing \<^verbatim>\<open>/\<close>) and \<^verbatim>\<open>.\<close> stay,
  \<^verbatim>\<open>..\<close> goes to the parent (the root is its own parent), a name goes to the entry of
  that name. Every step needs a directory to start from. The result is the list of
  names that leads from the root to the node. The empty path resolves to nothing.
\<close>

fun resolve :: "node \<Rightarrow> string list \<Rightarrow> string list \<Rightarrow> string list option" where
  "resolve root cur [] = Some cur"
| "resolve root cur (c # cs) =
    (case lookup cur root of
       Some (Dir es) \<Rightarrow>
         if c = [] \<or> c = ''.'' then resolve root cur cs
         else if c = ''..'' then resolve root (butlast cur) cs
         else if map_of es c = None then None
         else resolve root (cur @ [c]) cs
     | _ \<Rightarrow> None)"

definition node_at :: "node \<Rightarrow> string \<Rightarrow> node option" where
  "node_at root path =
    (if path = [] then None
     else case resolve root [] (components path) of
            None \<Rightarrow> None
          | Some cur \<Rightarrow> lookup cur root)"

text \<open>\<^verbatim>\<open>os.path.exists\<close>: the path resolves.\<close>

definition fs_exists :: "node \<Rightarrow> string \<Rightarrow> bool" where
  "fs_exists root path \<longleftrightarrow> node_at root path \<noteq> None"

text \<open>
  \<^verbatim>\<open>os.mkdir\<close>, with the error number of the \<^verbatim>\<open>OSError\<close> it raises; \<open>ENOENT\<close> stands for
  every number other than \<open>EEXIST\<close>. Slashes at the end of the path are ignored. The
  directory above the last component must exist, and the last component must not
  (\<^verbatim>\<open>.\<close> and \<^verbatim>\<open>..\<close> always do).
\<close>

datatype errno = EEXIST | ENOENT

definition fs_mkdir :: "node \<Rightarrow> string \<Rightarrow> errno + node" where
  "fs_mkdir root path =
    (let stripped = rev (dropWhile (\<lambda>c. c = CHR ''/'') (rev path)) in
     if path = [] then Inl ENOENT
     else if stripped = [] then Inl EEXIST
     else
       (let name = last (components stripped) in
        case resolve root [] (butlast (components stripped)) of
          None \<Rightarrow> Inl ENOENT
        | Some cur \<Rightarrow>
            (case lookup cur root of
               Some (Dir es) \<Rightarrow>
                 if name = ''.'' \<or> name = ''..'' \<or> map_of es name \<noteq> None then Inl EEXIST
                 else Inr (update_at cur (\<lambda>d. Dir (es @ [(name, Dir [])])) root)
             | _ \<Rightarrow> Inl ENOENT)))"

text \<open>
  \<^verbatim>\<open>os.makedirs\<close> of Python 2: \<^verbatim>\<open>head, tail = path.split(name)\<close>, once more when \<^verbatim>\<open>tail\<close>
  is empty; when \<^verbatim>\<open>head\<close> and \<^verbatim>\<open>tail\<close> are not empty and \<^verbatim>\<open>head\<close> does not exist, \<^verbatim>\<open>head\<close>
  is made first, where an \<^verbatim>\<open>OSError\<close> with \<^verbatim>\<open>EEXIST\<close> is passed over, and nothing more
  is done when \<^verbatim>\<open>tail\<close> is \<^verbatim>\<open>.\<close>; then \<^verbatim>\<open>mkdir(name)\<close>. The two parts of \<^verbatim>\<open>path.split\<close>
  are \<^verbatim>\<open>dirname\<close> and \<^verbatim>\<open>basename\<close>. Directories made before an error stay.
\<close>

definition makedirs_head :: "string \<Rightarrow> string" where
  "makedirs_head path =
    (if os_path_basename path = [] then os_path_dirname (os_path_dirname path)
     else os_path_dirname path)"

definition makedirs_tail :: "string \<Rightarrow> string" where
  "makedirs_tail path =
    (if os_path_basename path = [] then os_path_basename (os_path_dirname path)
     else os_path_basename path)"

definition mkdir_step :: "node \<Rightarrow> string \<Rightarrow> errno option \<times> node" where
  "mkdir_step root path = (case fs_mkdir root path of Inl e \<Rightarrow> (Some e, root) | Inr root1 \<Rightarrow> (None, root1))"

function makedirs :: "node \<Rightarrow> string \<Rightarrow> errno option \<times> node" where
  "makedirs root path =
    (if makedirs_head path \<noteq> [] \<and> makedirs_tail path \<noteq> []
        \<and> \<not> fs_exists root (makedirs_head path)
     then
       (case makedirs root (makedirs_head path) of
          (Some ENOENT, root1) \<Rightarrow> (Some ENOENT, root1)
        | (Some EEXIST, root1) \<Rightarrow>
            if makedirs_tail path = ''.'' then (None, root1) else mkdir_step root1 path
        | (None, root1) \<Rightarrow>
            if makedirs_tail path = ''.'' then (None, root1) else mkdir_step root1 path)
     else mkdir_step root path)"
  by pat_completeness auto
termination
proof (relation "measure (\<lambda>(root, path). length path)")
  fix root :: node and path :: string
  assume "makedirs_head path \<noteq> [] \<and> makedirs_tail path \<noteq> []
            \<and> \<not> fs_exists root (makedirs_head path)"
  then have t: "makedirs_tail path \<noteq> []" by simp
  have dn: "length (os_path_dirname p) \<le> length p" for p
  proof -
    have a: "length (rev (dropWhile (\<lambda>c. c \<noteq> CHR ''/'') (rev p))) \<le> length p"
      using length_dropWhile_le [of "\<lambda>c. c \<noteq> CHR ''/''" "rev p"] by simp
    have "length (rev (dropWhile (\<lambda>c. c = CHR ''/'')
              (rev (rev (dropWhile (\<lambda>c. c \<noteq> CHR ''/'') (rev p))))))
            \<le> length (rev (dropWhile (\<lambda>c. c \<noteq> CHR ''/'') (rev p)))"
      using length_dropWhile_le
              [of "\<lambda>c. c = CHR ''/''" "rev (rev (dropWhile (\<lambda>c. c \<noteq> CHR ''/'') (rev p)))"]
      by simp
    with a show ?thesis by (simp add: os_path_dirname_def Let_def)
  qed
  have db: "length (os_path_dirname p) < length p" if "os_path_basename p \<noteq> []" for p
  proof -
    have "length (takeWhile (\<lambda>c. c \<noteq> CHR ''/'') (rev p))
            + length (dropWhile (\<lambda>c. c \<noteq> CHR ''/'') (rev p)) = length p"
      using takeWhile_dropWhile_id [of "\<lambda>c. c \<noteq> CHR ''/''" "rev p"]
      by (metis length_append length_rev)
    moreover from that have "0 < length (takeWhile (\<lambda>c. c \<noteq> CHR ''/'') (rev p))"
      by (simp add: os_path_basename_def)
    ultimately have "length (dropWhile (\<lambda>c. c \<noteq> CHR ''/'') (rev p)) < length p"
      by linarith
    then have a: "length (rev (dropWhile (\<lambda>c. c \<noteq> CHR ''/'') (rev p))) < length p"
      by simp
    have "length (rev (dropWhile (\<lambda>c. c = CHR ''/'')
              (rev (rev (dropWhile (\<lambda>c. c \<noteq> CHR ''/'') (rev p))))))
            \<le> length (rev (dropWhile (\<lambda>c. c \<noteq> CHR ''/'') (rev p)))"
      using length_dropWhile_le
              [of "\<lambda>c. c = CHR ''/''" "rev (rev (dropWhile (\<lambda>c. c \<noteq> CHR ''/'') (rev p)))"]
      by simp
    with a show ?thesis by (simp add: os_path_dirname_def Let_def)
  qed
  have "length (makedirs_head path) < length path"
  proof (cases "os_path_basename path = []")
    case False
    then show ?thesis by (simp add: makedirs_head_def db)
  next
    case True
    with t have "os_path_basename (os_path_dirname path) \<noteq> []" by (simp add: makedirs_tail_def)
    then have "length (os_path_dirname (os_path_dirname path)) < length (os_path_dirname path)"
      by (rule db)
    also have "\<dots> \<le> length path" by (rule dn)
    finally show ?thesis using True by (simp add: makedirs_head_def)
  qed
  then show "((root, makedirs_head path), (root, path)) \<in> measure (\<lambda>(root, path). length path)"
    by simp
qed simp

declare makedirs.simps [simp del]

definition fs_makedirs :: "node \<Rightarrow> string \<Rightarrow> exn option \<times> node" where
  "fs_makedirs root path =
    (case makedirs root path of (Some e, root1) \<Rightarrow> (Some OSError, root1) | (None, root1) \<Rightarrow> (None, root1))"

text \<open>
  \<^verbatim>\<open>TranslationUnit.save\<close> writes the file, new or in place of a regular file of that
  name. It raises when the path is empty or ends in \<^verbatim>\<open>/\<close>, \<^verbatim>\<open>.\<close> or \<^verbatim>\<open>..\<close>, when the
  directory above the last component does not exist, and when the path names a
  directory.
\<close>

definition fs_save :: "node \<Rightarrow> translation_unit \<Rightarrow> string \<Rightarrow> exn option \<times> node" where
  "fs_save root tu path =
    (let name = last (components path) in
     if path = [] \<or> name = [] \<or> name = ''.'' \<or> name = ''..''
     then (Some TranslationUnitSaveError, root)
     else
       (case resolve root [] (butlast (components path)) of
          None \<Rightarrow> (Some TranslationUnitSaveError, root)
        | Some cur \<Rightarrow>
            (case lookup cur root of
               Some (Dir es) \<Rightarrow>
                 (case map_of es name of
                    Some (Dir es') \<Rightarrow> (Some TranslationUnitSaveError, root)
                  | _ \<Rightarrow> (None, update_at cur
                              (\<lambda>d. Dir (AList.update name (File (Serialized tu)) es)) root))
             | _ \<Rightarrow> (Some TranslationUnitSaveError, root))))"

text \<open>\<^verbatim>\<open>Index.read\<close> gives the unit that was serialized to the file, or an error.\<close>

definition fs_read :: "node \<Rightarrow> string \<Rightarrow> exn + translation_unit" where
  "fs_read root path =
    (case node_at root path of
       Some (File (Serialized tu)) \<Rightarrow> Inr tu
     | _ \<Rightarrow> Inl TranslationUnitLoadError)"

text \<open>
  \<^verbatim>\<open>os.walk\<close>, top down: the triple of the directory (its path as given or joined, the
  names of its directories, the names of its files), then the walks of its
  directories under the joined paths, in the order of the listing. Nothing is
  yielded for a path that is no directory.
\<close>

fun is_directory :: "node \<Rightarrow> bool" where
  "is_directory (Dir es) = True"
| "is_directory (File c) = False"

fun walk_node :: "string \<Rightarrow> node \<Rightarrow> (string \<times> string list \<times> string list) list" where
  "walk_node top_dir (File c) = []"
| "walk_node top_dir (Dir es) =
     (top_dir, map fst (filter (\<lambda>(x, m). is_directory m) es),
               map fst (filter (\<lambda>(x, m). \<not> is_directory m) es))
     # concat (map (\<lambda>(x, m). walk_node (os_path_join top_dir x) m) es)"

definition fs_walk :: "node \<Rightarrow> string \<Rightarrow> (string \<times> string list \<times> string list) list" where
  "fs_walk root top_dir = (case node_at root top_dir of None \<Rightarrow> [] | Some n \<Rightarrow> walk_node top_dir n)"

definition fs_ops :: "node os_ops" where
  "fs_ops = \<lparr>os_path_exists = fs_exists, os_makedirs = fs_makedirs, tu_save = fs_save,
              os_walk = fs_walk, index_read = fs_read\<rparr>"

text \<open>
  Notions for the properties of this file system. \<open>node_artifacts\<close> are the artifacts
  of the walk from a node, \<open>artifacts_at\<close> those of the walk from the node under a list
  of names, if there is one. \<open>grows\<close> relates a tree to a later one in which every
  directory is still a directory with at least the names it had, and every file that
  held a serialized unit still holds one.
\<close>

definition node_artifacts :: "string \<Rightarrow> node \<Rightarrow> string set" where
  "node_artifacts top_dir n = set (artifact_paths (walk_node top_dir n))"



section \<open>Example data\<close>

text \<open>Concrete locations, cursors and stores on which the operations are run below.\<close>

definition mk_location :: "string \<Rightarrow> nat \<Rightarrow> nat \<Rightarrow> nat \<Rightarrow> source_location" where
  "mk_location f l c off = \<lparr>file_attr = Some \<lparr>name = f\<rparr>, line = l, column = c, offset = off\<rparr>"

definition mk_range :: "source_location \<Rightarrow> source_location \<Rightarrow> source_range" where
  "mk_range a b = \<lparr>start = a, range_end = b\<rparr>"

text \<open>
  The member reference \<^verbatim>\<open>t.foo\<close> of an uninstantiated template, at line 4 of
  \<^verbatim>\<open>/src/a.cpp\<close>, with its three tokens; \<open>ex_member_ref\<close> is the cursor as the
  binding hands it out, with no \<^verbatim>\<open>ast_parent\<close> attribute.
\<close>

definition ex_member_extent :: source_range where
  "ex_member_extent =
     mk_range (mk_location ''/src/a.cpp'' 4 5 40) (mk_location ''/src/a.cpp'' 4 10 45)"

definition ex_member_ref :: cursor where
  "ex_member_ref = Cursor MEMBER_REF_EXPR [] DEPENDENT (mk_location ''/src/a.cpp'' 4 5 40)
     ex_member_extent None [] [] [] [] None None"

definition ex_member_tokens :: "token list" where
  "ex_member_tokens =
    [Token IDENTIFIER ''t'' (mk_location ''/src/a.cpp'' 4 5 40)
       (mk_range (mk_location ''/src/a.cpp'' 4 5 40) (mk_location ''/src/a.cpp'' 4 6 41))
       (Cursor (OTHER_CURSOR_KIND 101) ''t'' DEPENDENT (mk_location ''/src/a.cpp'' 4 5 40)
          (mk_range (mk_location ''/src/a.cpp'' 4 5 40) (mk_location ''/src/a.cpp'' 4 6 41))
          None [] [] [] [] None None),
     Token PUNCTUATION ''.'' (mk_location ''/src/a.cpp'' 4 6 41)
       (mk_range (mk_location ''/src/a.cpp'' 4 6 41) (mk_location ''/src/a.cpp'' 4 7 42))
       ex_member_ref,
     Token IDENTIFIER ''foo'' (mk_location ''/src/a.cpp'' 4 7 42)
       (mk_range (mk_location ''/src/a.cpp'' 4 7 42) (mk_location ''/src/a.cpp'' 4 10 45))
       ex_member_ref]"

text \<open>The call \<^verbatim>\<open>t.foo()\<close> around it, and the member reference as \<^verbatim>\<open>traverse\<close> hands it
  to a visitor below that call.\<close>

definition ex_call_parent :: cursor where
  "ex_call_parent = Cursor CALL_EXPR [] DEPENDENT (mk_location ''/src/a.cpp'' 4 5 40)
     (mk_range (mk_location ''/src/a.cpp'' 4 5 40) (mk_location ''/src/a.cpp'' 4 12 47))
     None [] [] [] [] None None"

definition ex_member_in_call :: cursor where
  "ex_member_in_call = Cursor MEMBER_REF_EXPR [] DEPENDENT (mk_location ''/src/a.cpp'' 4 5 40)
     ex_member_extent None [] [] ex_member_tokens [] None (Some (Some ex_call_parent))"


definition ex_member_no_token :: cursor where
  "ex_member_no_token = Cursor MEMBER_REF_EXPR [] DEPENDENT (mk_location ''/src/a.cpp'' 4 5 40)
     ex_member_extent None [] [] [] [] None (Some (Some ex_call_parent))"

text \<open>
  Two translation units. \<^verbatim>\<open>/src/a.cpp\<close> defines \<^verbatim>\<open>void f()\<close> on its first line.
  \<^verbatim>\<open>/src/b.cpp\<close> includes \<^verbatim>\<open>/src/f.h\<close>, which declares \<^verbatim>\<open>f\<close>, and defines \<^verbatim>\<open>g\<close>,
  which calls \<^verbatim>\<open>f\<close> on line 3. \<open>ex_entity_f\<close> is the declaration that the uses of
  \<^verbatim>\<open>f\<close> refer to.
\<close>

definition ex_entity_f :: cursor where
  "ex_entity_f = Cursor FUNCTION_DECL ''f'' (OTHER_TYPE_KIND 111) (mk_location ''/src/a.cpp'' 1 6 5)
     (mk_range (mk_location ''/src/a.cpp'' 1 1 0) (mk_location ''/src/a.cpp'' 1 12 11))
     None [] ''c:@F@f#'' [] [] None None"

definition ex_def_f :: cursor where
  "ex_def_f = Cursor FUNCTION_DECL ''f'' (OTHER_TYPE_KIND 111) (mk_location ''/src/a.cpp'' 1 6 5)
     (mk_range (mk_location ''/src/a.cpp'' 1 1 0) (mk_location ''/src/a.cpp'' 1 12 11))
     (Some ex_entity_f) [] ''c:@F@f#''
     [Token KEYWORD ''void'' (mk_location ''/src/a.cpp'' 1 1 0)
        (mk_range (mk_location ''/src/a.cpp'' 1 1 0) (mk_location ''/src/a.cpp'' 1 5 4)) ex_entity_f,
      Token IDENTIFIER ''f'' (mk_location ''/src/a.cpp'' 1 6 5)
        (mk_range (mk_location ''/src/a.cpp'' 1 6 5) (mk_location ''/src/a.cpp'' 1 7 6)) ex_entity_f]
     [] None None"

definition ex_decl_f_header :: cursor where
  "ex_decl_f_header = Cursor FUNCTION_DECL ''f'' (OTHER_TYPE_KIND 111) (mk_location ''/src/f.h'' 1 6 5)
     (mk_range (mk_location ''/src/f.h'' 1 1 0) (mk_location ''/src/f.h'' 1 9 8))
     (Some ex_entity_f) [] ''c:@F@f#''
     [Token KEYWORD ''void'' (mk_location ''/src/f.h'' 1 1 0)
        (mk_range (mk_location ''/src/f.h'' 1 1 0) (mk_location ''/src/f.h'' 1 5 4)) ex_entity_f,
      Token IDENTIFIER ''f'' (mk_location ''/src/f.h'' 1 6 5)
        (mk_range (mk_location ''/src/f.h'' 1 6 5) (mk_location ''/src/f.h'' 1 7 6)) ex_entity_f]
     [] None None"

definition ex_call_f :: cursor where
  "ex_call_f = Cursor CALL_EXPR ''f'' (OTHER_TYPE_KIND 2) (mk_location ''/src/b.cpp'' 3 3 30)
     (mk_range (mk_location ''/src/b.cpp'' 3 3 30) (mk_location ''/src/b.cpp'' 3 6 33))
     (Some ex_entity_f) [] []
     [Token IDENTIFIER ''f'' (mk_location ''/src/b.cpp'' 3 3 30)
        (mk_range (mk_location ''/src/b.cpp'' 3 3 30) (mk_location ''/src/b.cpp'' 3 4 31)) ex_entity_f]
     [] None None"

definition ex_def_g :: cursor where
  "ex_def_g = Cursor FUNCTION_DECL ''g'' (OTHER_TYPE_KIND 111) (mk_location ''/src/b.cpp'' 2 6 20)
     (mk_range (mk_location ''/src/b.cpp'' 2 1 15) (mk_location ''/src/b.cpp'' 4 2 36))
     None [] ''c:@F@g#''
     [Token KEYWORD ''void'' (mk_location ''/src/b.cpp'' 2 1 15)
        (mk_range (mk_location ''/src/b.cpp'' 2 1 15) (mk_location ''/src/b.cpp'' 2 5 19)) ex_entity_f,
      Token IDENTIFIER ''g'' (mk_location ''/src/b.cpp'' 2 6 20)
        (mk_range (mk_location ''/src/b.cpp'' 2 6 20) (mk_location ''/src/b.cpp'' 2 7 21)) ex_entity_f]
     [ex_call_f] None None"

definition ex_root :: "string \<Rightarrow> cursor list \<Rightarrow> cursor" where
  "ex_root f cs = Cursor (OTHER_CURSOR_KIND 300) f (OTHER_TYPE_KIND 0)
     \<lparr>file_attr = None, line = 0, column = 0, offset = 0\<rparr>
     (mk_range \<lparr>file_attr = None, line = 0, column = 0, offset = 0\<rparr>
               \<lparr>file_attr = None, line = 0, column = 0, offset = 0\<rparr>)
     None [] [] [] cs (Some f) None"

definition ex_tu_a :: translation_unit where
  "ex_tu_a = \<lparr>tu_spelling = ''/src/a.cpp'', tu_cursor = ex_root ''/src/a.cpp'' [ex_def_f],
              diagnostics = []\<rparr>"

definition ex_tu_b :: translation_unit where
  "ex_tu_b = \<lparr>tu_spelling = ''/src/b.cpp'',
              tu_cursor = ex_root ''/src/b.cpp'' [ex_decl_f_header, ex_def_g], diagnostics = []\<rparr>"

definition ex_parser_a :: clang_parser where
  "ex_parser_a = \<lparr>tunits = [(''/src/a.cpp'', ex_tu_a)], default_args = [''-x'', ''c++'', ''-std=c++14'']\<rparr>"

definition ex_parser_ab :: clang_parser where
  "ex_parser_ab = \<lparr>tunits = [(''/src/a.cpp'', ex_tu_a), (''/src/b.cpp'', ex_tu_b)],
                   default_args = [''-x'', ''c++'', ''-std=c++14'']\<rparr>"

definition ex_from_location :: "translation_unit \<Rightarrow> string \<Rightarrow> int \<Rightarrow> int \<Rightarrow> exn + cursor" where
  "ex_from_location tu f l c =
     (if f = ''/src/a.cpp'' \<and> l = 1 \<and> c = 6 then Inr ex_def_f else Inl AttributeError)"

definition ex_index_parse :: "string \<Rightarrow> string list \<Rightarrow> exn + translation_unit" where
  "ex_index_parse path args =
     (if path = ''/src/a.cpp'' then Inr ex_tu_a
      else if path = ''/src/b.cpp'' then Inr ex_tu_b
      else Inl TranslationUnitLoadError)"

text \<open>A location with no file, as that of a translation unit's root cursor.\<close>

definition ex_no_file :: source_location where
  "ex_no_file = \<lparr>file_attr = None, line = 0, column = 0, offset = 0\<rparr>"


text \<open>
  A parser with no unit. A read-only disk that holds the artifact of \<^verbatim>\<open>/src/a.cpp\<close> and,
  next to it, a file \<^verbatim>\<open>b.cpp.ast\<close> that is no serialized unit, given by the answers of
  \<^verbatim>\<open>os.walk\<close> and \<^verbatim>\<open>Index.read\<close> on it.
\<close>

definition ex_fresh :: clang_parser where
  "ex_fresh = \<lparr>tunits = [], default_args = []\<rparr>"

definition ex_corrupt_ops :: "unit os_ops" where
  "ex_corrupt_ops =
     \<lparr>os_path_exists = (\<lambda>w p. p \<in> set [''/'', ''/idx'', ''/idx/src'', ''/idx/src/a.cpp.ast'',
                                          ''/idx/src/b.cpp.ast'']),
      os_makedirs = (\<lambda>w d. (Some OSError, w)),
      tu_save = (\<lambda>w tu p. (Some TranslationUnitSaveError, w)),
      os_walk = (\<lambda>w top_dir. if top_dir = ''/idx''
                   then [(''/idx'', [''src''], []),
                         (''/idx/src'', [], [''a.cpp.ast'', ''b.cpp.ast''])]
                   else []),
      index_read = (\<lambda>w p. if p = ''/idx/src/a.cpp.ast'' then Inr ex_tu_a
                           else Inl TranslationUnitLoadError)\<rparr>"

text \<open>
  The file system of the preceding section after the two units were saved below
  \<^verbatim>\<open>/idx\<close> of the empty root, and one on which an artifact of an earlier save is left
  below \<^verbatim>\<open>/idx\<close>.
\<close>

definition ex_disk_saved :: node where
  "ex_disk_saved =
     Dir [(''idx'', Dir [(''src'', Dir [(''a.cpp.ast'', File (Serialized ex_tu_a)),
                                        (''b.cpp.ast'', File (Serialized ex_tu_b))])])]"

definition ex_disk_stale :: node where
  "ex_disk_stale = Dir [(''idx'', Dir [(''old'', Dir [(''c.cpp.ast'', File (Serialized ex_tu_a))])])]"

section \<open>Properties\<close>

subsection \<open>Auxiliary facts\<close>

lemma find_Some_ex: "\<exists>t\<in>set ts. P t \<Longrightarrow> \<exists>t. find P ts = Some t"
  by (induction ts) auto

lemma find_None_all: "\<forall>t\<in>set ts. \<not> P t \<Longrightarrow> find P ts = None"
  by (simp add: find_None_iff)

lemma ex_member_in_call_qualifying:
  "qualifying_token ex_member_in_call (ex_member_tokens ! 2)"
  by (simp add: ex_member_in_call_def ex_member_tokens_def ex_member_ref_def qualifying_token_def)

subsection \<open>The dependent construct resolver\<close>

text \<open>
  C7. For a cursor of dependent type and member-reference kind that carries the
  traversal's \<^verbatim>\<open>ast_parent\<close> attachment and has a qualifying token (an identifier
  token whose own cursor is a member reference with the cursor's extent), the
  resolver reports \<^verbatim>\<open>CXX_METHOD\<close> when the attached parent is a call expression and
  \<^verbatim>\<open>FIELD_DECL\<close> otherwise (another parent, or the value \<^verbatim>\<open>None\<close>); classification
  then gives Method and Field.
\<close>

theorem dependent_member_kind:
  assumes dep: "type_kind c = DEPENDENT" and mem: "kind c = MEMBER_REF_EXPR"
    and tok: "\<exists>t\<in>set (get_tokens c). qualifying_token c t"
    and par: "ast_parent c = Some parent"
  shows "extract_dependent_type_kind c =
           Inr (if (\<exists>p. parent = Some p \<and> kind p = CALL_EXPR) then CXX_METHOD else FIELD_DECL)
         \<and> get_ast_node_id c =
           Inr (if (\<exists>p. parent = Some p \<and> kind p = CALL_EXPR) then MethodId else FieldId)"
proof -
  from find_Some_ex [OF tok]
  obtain t where t: "find (qualifying_token c) (get_tokens c) = Some t" ..
  have k: "extract_dependent_type_kind c =
           Inr (if (\<exists>p. parent = Some p \<and> kind p = CALL_EXPR) then CXX_METHOD else FIELD_DECL)"
  proof (cases parent)
    case None
    with dep mem par t show ?thesis by (simp add: extract_dependent_type_kind_def)
  next
    case (Some p)
    with dep mem par t show ?thesis by (simp add: extract_dependent_type_kind_def)
  qed
  have "get_ast_node_id c =
           Inr (if (\<exists>p. parent = Some p \<and> kind p = CALL_EXPR) then MethodId else FieldId)"
    using dep by (simp add: get_ast_node_id_def k to_ast_node_id_def)
  with k show ?thesis by simp
qed

theorem dependent_member_kind_witness:
  "extract_dependent_type_kind ex_member_in_call = Inr CXX_METHOD
     \<and> get_ast_node_id ex_member_in_call = Inr MethodId"
proof -
  have dep: "type_kind ex_member_in_call = DEPENDENT"
    and mem: "kind ex_member_in_call = MEMBER_REF_EXPR"
    and par: "ast_parent ex_member_in_call = Some (Some ex_call_parent)"
    and toks: "get_tokens ex_member_in_call = ex_member_tokens"
    by (simp_all add: ex_member_in_call_def)
  have "ex_member_tokens ! 2 \<in> set ex_member_tokens"
    by (simp add: ex_member_tokens_def)
  then have "ex_member_tokens ! 2 \<in> set (get_tokens ex_member_in_call)"
    by (simp only: toks)
  then have tok: "\<exists>t\<in>set (get_tokens ex_member_in_call). qualifying_token ex_member_in_call t"
    using ex_member_in_call_qualifying by (rule bexI [rotated])
  have "kind ex_call_parent = CALL_EXPR" by (simp add: ex_call_parent_def)
  then show ?thesis
    using dependent_member_kind [OF dep mem tok par] by simp
qed

text \<open>
  C8, as stated, at a cursor that never went through \<^verbatim>\<open>traverse\<close>: a member reference
  of dependent type with an empty token stream and no \<^verbatim>\<open>ast_parent\<close> attribute. The
  kind extractor reads \<^verbatim>\<open>cursor.ast_parent\<close> before it looks at any token, and raises.
\<close>

theorem dependent_fallback_raises:
  "type_kind ex_member_ref = DEPENDENT \<and> get_tokens ex_member_ref = []
   \<and> extract_dependent_type_kind ex_member_ref = Inl AttributeError"
  by (simp add: extract_dependent_type_kind_def ex_member_ref_def)

text \<open>
  C8, amended. For a cursor of dependent type that has no qualifying token and, when
  it is a member reference, carries the \<^verbatim>\<open>ast_parent\<close> attachment of the traversal, the
  three extractors return the cursor's own kind, spelling and location, and none of
  them raises.
\<close>

theorem dependent_fallback:
  assumes dep: "type_kind c = DEPENDENT"
    and notok: "\<forall>t\<in>set (get_tokens c). \<not> qualifying_token c t"
    and att: "kind c = MEMBER_REF_EXPR \<longrightarrow> ast_parent c \<noteq> None"
  shows "extract_dependent_type_kind c = Inr (kind c)
         \<and> extract_dependent_type_spelling c = Inr (spelling c)
         \<and> extract_dependent_type_location c = Inr (location c)"
proof -
  have f: "find (qualifying_token c) (get_tokens c) = None"
    using notok by (rule find_None_all)
  have "extract_dependent_type_kind c = Inr (kind c)"
    using dep att f by (auto simp add: extract_dependent_type_kind_def split: option.splits)
  moreover have "extract_dependent_type_spelling c = Inr (spelling c)"
    using dep f by (simp add: extract_dependent_type_spelling_def)
  moreover have "extract_dependent_type_location c = Inr (location c)"
    using dep f by (simp add: extract_dependent_type_location_def)
  ultimately show ?thesis by simp
qed

theorem dependent_fallback_witness:
  "extract_dependent_type_kind ex_member_no_token = Inr MEMBER_REF_EXPR
   \<and> extract_dependent_type_spelling ex_member_no_token = Inr []
   \<and> extract_dependent_type_location ex_member_no_token = Inr (mk_location ''/src/a.cpp'' 4 5 40)"
proof -
  have dep: "type_kind ex_member_no_token = DEPENDENT"
    and notok: "\<forall>t\<in>set (get_tokens ex_member_no_token). \<not> qualifying_token ex_member_no_token t"
    and att: "kind ex_member_no_token = MEMBER_REF_EXPR \<longrightarrow> ast_parent ex_member_no_token \<noteq> None"
    by (simp_all add: ex_member_no_token_def)
  show ?thesis
    using dependent_fallback [OF dep notok att] by (simp add: ex_member_no_token_def)
qed

subsection \<open>Classification\<close>







subsection \<open>The store\<close>

text \<open>
  C2. \<^verbatim>\<open>run\<close> never raises. When the front-end's parse raises, every key of the store
  (the parsed key among them) still maps to what it mapped to before; when the parse
  succeeds, the parsed key maps to the new translation unit. Other keys are untouched
  in both cases.
\<close>

theorem run_store:
  "\<exists>self'. run index_parse self contents_filename original_filename compiler_args root = Inr self'
     \<and> (\<forall>e. index_parse contents_filename
              (default_args self @ compiler_args @ [''-working-directory='' @ root]) = Inl e
          \<longrightarrow> (\<forall>k. get_translation_unit self' k = get_translation_unit self k))
     \<and> (\<forall>tu. index_parse contents_filename
              (default_args self @ compiler_args @ [''-working-directory='' @ root]) = Inr tu
          \<longrightarrow> get_translation_unit self' original_filename = Some tu)
     \<and> (\<forall>k. k \<noteq> original_filename \<longrightarrow> get_translation_unit self' k = get_translation_unit self k)"
  by (cases "index_parse contents_filename
              (default_args self @ compiler_args @ [''-working-directory='' @ root])")
     (simp_all add: run_def get_translation_unit_def update_conv')

theorem run_store_witness:
  "run ex_index_parse ex_parser_a ''/nowhere/a.cpp'' ''/src/a.cpp'' [] ''/src'' = Inr ex_parser_a
   \<and> get_translation_unit ex_parser_a ''/src/a.cpp'' = Some ex_tu_a"
  using run_store [of ex_index_parse ex_parser_a "''/nowhere/a.cpp''" "''/src/a.cpp''" "[]" "''/src''"]
  by (simp add: run_def ex_index_parse_def get_translation_unit_def ex_parser_a_def)

subsection \<open>Source locations\<close>

lemma isl_eq_iff_eq: "isl_eq a b \<longleftrightarrow> a = b"
  by (cases a; cases b) (auto simp add: isl_eq_def location_eq_def)

lemma isl_eq_fields:
  "isl_eq a b \<longleftrightarrow>
      file_attr (source_location a) = file_attr (source_location b)
      \<and> line (source_location a) = line (source_location b)
      \<and> column (source_location a) = column (source_location b)
      \<and> offset (source_location a) = offset (source_location b)"
  by (simp add: isl_eq_def location_eq_def)

lemma isl_hash_with_file:
  "isl_eq a b \<Longrightarrow> file_attr (source_location a) \<noteq> None \<Longrightarrow>
     \<exists>h. isl_hash hash_str hash_int a = Inr h \<and> isl_hash hash_str hash_int b = Inr h"
  by (auto simp add: isl_eq_def location_eq_def isl_hash_def split: option.splits)

text \<open>
  C6, at a location that has no file (as the location of a translation unit's root
  cursor): the wrapped location equals itself, and \<^verbatim>\<open>__hash__\<close> raises
  \<^verbatim>\<open>AttributeError\<close> instead of returning a hash, whatever Python's hashes of strings
  and integers are. Equality is by the four fields (\<open>isl_eq_fields\<close>), and equal
  locations that have a file do hash alike (\<open>isl_hash_with_file\<close>).
\<close>

theorem isl_hash_no_file:
  "isl_eq (ImmutableSourceLocation ex_no_file) (ImmutableSourceLocation ex_no_file)
   \<and> isl_hash hash_str hash_int (ImmutableSourceLocation ex_no_file) = Inl AttributeError"
  by (simp add: isl_eq_def location_eq_def isl_hash_def ex_no_file_def)

subsection \<open>Finding references\<close>

text \<open>
  C5. When no translation unit is stored under \<^verbatim>\<open>filename\<close>, \<^verbatim>\<open>find_all_references\<close>
  does not raise and returns a collection that holds no location (the empty list of
  its early \<^verbatim>\<open>return []\<close>).
\<close>

theorem find_all_references_unknown_file:
  assumes "filename \<notin> fst ` set (tunits self)"
  shows "\<exists>r. find_all_references from_location self filename line_no column_no = Inr r
             \<and> elements r = {}"
proof -
  from assms have "map_of (tunits self) filename = None"
    by (simp add: map_of_eq_None_iff)
  then show ?thesis by (simp add: find_all_references_def)
qed

theorem find_all_references_unknown_file_witness:
  "find_all_references ex_from_location ex_parser_a ''/src/b.cpp'' 3 3 = Inr (PyList [])"
proof -
  have "''/src/b.cpp'' \<notin> fst ` set (tunits ex_parser_a)"
    by (simp add: ex_parser_a_def)
  from find_all_references_unknown_file [OF this, of ex_from_location 3 3]
  show ?thesis by (simp add: find_all_references_def ex_parser_a_def)
qed

lemma visitor_confirmed:
  "visitor k n p cd =
     (RECURSE,
      if confirmed k (cd_cursor cd) n
      then cd\<lparr>cd_references := insert (ImmutableSourceLocation (location n)) (cd_references cd)\<rparr>
      else cd)"
  by (simp add: visitor_def confirmed_def Let_def split: option.splits)

lemma confirmed_attached:
  "confirmed k t (set_ast_parent p (set_tu_attr a n)) = confirmed k t n"
  by (cases n) (simp add: confirmed_def Let_def split: option.splits)

lemma location_attached: "location (set_ast_parent p (set_tu_attr a n)) = location n"
  by (cases n) simp

lemma confirmed_locations_Cons:
  "set (confirmed_locations k t (n # ns)) =
     (if confirmed k t n then {ImmutableSourceLocation (location n)} else {})
       \<union> set (confirmed_locations k t ns)"
  by (simp add: confirmed_locations_def)

lemma confirmed_locations_append:
  "set (confirmed_locations k t (xs @ ys)) =
     set (confirmed_locations k t xs) \<union> set (confirmed_locations k t ys)"
  by (simp add: confirmed_locations_def)

lemma visit_list_visitor:
  "visit_list (\<lambda>child parent data.
       visitor k (set_ast_parent (Some parent) (set_tu_attr a child)) parent data) parent cs cd
   = (False, cd\<lparr>cd_references := cd_references cd \<union>
        set (confirmed_locations k (cd_cursor cd) (nodes_below cs))\<rparr>)"
proof (induction cs arbitrary: parent cd rule: nodes_below.induct)
  case 1
  then show ?case by (simp add: confirmed_locations_def)
next
  case (2 kd sp ty lo ex re ov us tk ch tu ap cs)
  let ?c = "Cursor kd sp ty lo ex re ov us tk ch tu ap"
  let ?v = "\<lambda>child parent data.
       visitor k (set_ast_parent (Some parent) (set_tu_attr a child)) parent data"
  let ?t = "cd_cursor cd"
  define here where
    "here = (if confirmed k ?t ?c then {ImmutableSourceLocation (location ?c)} else {})"
  define cd1 where "cd1 = cd\<lparr>cd_references := here \<union> cd_references cd\<rparr>"
  have v: "?v ?c parent cd = (RECURSE, cd1)"
    unfolding cd1_def here_def
    by (cases "confirmed k ?t ?c")
       (simp_all only: visitor_confirmed confirmed_attached location_attached if_True if_False,
        simp_all)
  have t1: "cd_cursor cd1 = ?t" by (simp add: cd1_def)
  define cd2 where "cd2 = cd1\<lparr>cd_references := cd_references cd1 \<union>
        set (confirmed_locations k ?t (nodes_below ch))\<rparr>"
  have inner: "visit_list ?v ?c ch cd1 = (False, cd2)"
    unfolding cd2_def using "2.IH"(1) [of ?c cd1] by (simp only: t1)
  have t2: "cd_cursor cd2 = ?t" by (simp add: cd2_def t1)
  have outer: "visit_list ?v parent cs cd2 = (False, cd2\<lparr>cd_references := cd_references cd2 \<union>
        set (confirmed_locations k ?t (nodes_below cs))\<rparr>)"
    using "2.IH"(2) [of parent cd2] by (simp only: t2)
  have "visit_list ?v parent (?c # cs) cd = visit_list ?v parent cs cd2"
    by (simp only: visit_list.simps v inner prod.case child_visit_result.case bool.case)
  also note outer
  also have "cd2\<lparr>cd_references := cd_references cd2 \<union>
        set (confirmed_locations k ?t (nodes_below cs))\<rparr>
     = cd\<lparr>cd_references := cd_references cd \<union>
        set (confirmed_locations k ?t (nodes_below (?c # cs)))\<rparr>"
  proof -
    have "cd_references cd2 \<union> set (confirmed_locations k ?t (nodes_below cs))
      = cd_references cd \<union> set (confirmed_locations k ?t (nodes_below (?c # cs)))"
      by (simp add: cd2_def cd1_def confirmed_locations_Cons confirmed_locations_append
            here_def [symmetric] Un_ac)
    then show ?thesis by (simp add: cd2_def cd1_def)
  qed
  finally show ?case .
qed

lemma traverse_visitor:
  "cd_references (snd (traverse root cd (visitor k)))
     = cd_references cd \<union> set (confirmed_locations k (cd_cursor cd) (descendants root))"
  by (simp add: traverse_def clang_visitChildren_def visit_list_visitor descendants_def)

lemma references_loop_units:
  "references_loop target entries refs
     = refs \<union> (\<Union>(k, tu)\<in>set entries.
                  set (confirmed_locations k target (descendants (tu_cursor tu))))"
proof (induction entries arbitrary: refs)
  case Nil
  then show ?case by simp
next
  case (Cons e entries)
  obtain k tu where e: "e = (k, tu)" by (cases e)
  show ?case
    unfolding e by (simp add: Cons.IH traverse_visitor Un_assoc)
qed

lemma ex_find_all_references:
  "find_all_references ex_from_location ex_parser_ab ''/src/a.cpp'' 1 6 =
     Inr (PySet {ImmutableSourceLocation (mk_location ''/src/a.cpp'' 1 6 5),
                 ImmutableSourceLocation (mk_location ''/src/b.cpp'' 3 3 30)})"
  by (simp add: find_all_references_def ex_parser_ab_def ex_from_location_def ex_tu_a_def
        ex_tu_b_def ex_root_def ex_def_f_def ex_decl_f_header_def ex_def_g_def ex_call_f_def
        ex_entity_f_def traverse_def clang_visitChildren_def visitor_def location_eq_def
        mk_location_def mk_range_def insert_commute)

text \<open>
  C1, as stated, on the store of \<^verbatim>\<open>/src/a.cpp\<close> and \<^verbatim>\<open>/src/b.cpp\<close>, asked for the
  references of \<^verbatim>\<open>f\<close> at line 1, column 6 of \<^verbatim>\<open>/src/a.cpp\<close>: the call in
  \<^verbatim>\<open>/src/b.cpp\<close>, a node of the other translation unit's own file, is in the result.
\<close>

theorem references_from_other_file:
  "find_all_references ex_from_location ex_parser_ab ''/src/a.cpp'' 1 6 =
     Inr (PySet {ImmutableSourceLocation (mk_location ''/src/a.cpp'' 1 6 5),
                 ImmutableSourceLocation (mk_location ''/src/b.cpp'' 3 3 30)})
   \<and> file_attr (mk_location ''/src/b.cpp'' 3 3 30) = Some \<lparr>name = ''/src/b.cpp''\<rparr>
   \<and> ''/src/b.cpp'' \<noteq> ''/src/a.cpp''"
  using ex_find_all_references by (simp add: mk_location_def)

lemma ex_unit_b_locations:
  "set (confirmed_locations ''/src/b.cpp'' ex_entity_f (descendants (tu_cursor ex_tu_b)))
     = {ImmutableSourceLocation (mk_location ''/src/b.cpp'' 3 3 30)}"
  by (simp add: confirmed_locations_def descendants_def confirmed_def ex_tu_b_def ex_root_def
        ex_decl_f_header_def ex_def_g_def ex_call_f_def ex_entity_f_def location_eq_def
        mk_location_def mk_range_def)

text \<open>
  C1, amended. With \<^verbatim>\<open>filename\<close> loaded, a call that returns has looked up the cursor in
  the unit stored under \<^verbatim>\<open>filename\<close>, and its result holds exactly the locations of
  the nodes that are confirmed in the walks of the loaded units, where the walk of the
  unit stored under key \<open>k\<close> confirms a node against \<open>k\<close>: a confirmed node's location
  lies in the file named \<open>k\<close>, the key of the unit being walked, not in the file the
  query started from. A node whose file is not the key of the unit it is visited in
  contributes nothing.
\<close>

theorem references_by_unit:
  assumes loaded: "filename \<in> fst ` set (tunits self)"
    and res: "find_all_references from_location self filename line_no column_no = Inr r"
  shows "(\<exists>tu0 cursor.
            map_of (tunits self) filename = Some tu0
            \<and> from_location tu0 (tu_spelling tu0) line_no column_no = Inr cursor
            \<and> elements r =
                (\<Union>(k, tu)\<in>set (tunits self).
                   set (confirmed_locations k
                          (case referenced cursor of Some t \<Rightarrow> t | None \<Rightarrow> cursor)
                          (descendants (tu_cursor tu)))))
         \<and> (\<forall>k t n. confirmed k t n \<longrightarrow>
               (\<exists>f. file_attr (location n) = Some f \<and> name f = k))"
proof -
  from loaded obtain tu0 where m: "map_of (tunits self) filename = Some tu0"
    by (cases "map_of (tunits self) filename") (simp_all add: map_of_eq_None_iff)
  from res m obtain cursor where c: "from_location tu0 (tu_spelling tu0) line_no column_no = Inr cursor"
    by (cases "from_location tu0 (tu_spelling tu0) line_no column_no")
       (simp_all add: find_all_references_def)
  from res m c have "r = PySet (references_loop
       (case referenced cursor of Some t \<Rightarrow> t | None \<Rightarrow> cursor) (tunits self) {})"
    by (simp add: find_all_references_def)
  then have "elements r =
                (\<Union>(k, tu)\<in>set (tunits self).
                   set (confirmed_locations k
                          (case referenced cursor of Some t \<Rightarrow> t | None \<Rightarrow> cursor)
                          (descendants (tu_cursor tu))))"
    by (simp add: references_loop_units)
  with m c have A: "\<exists>tu0 cursor.
            map_of (tunits self) filename = Some tu0
            \<and> from_location tu0 (tu_spelling tu0) line_no column_no = Inr cursor
            \<and> elements r =
                (\<Union>(k, tu)\<in>set (tunits self).
                   set (confirmed_locations k
                          (case referenced cursor of Some t \<Rightarrow> t | None \<Rightarrow> cursor)
                          (descendants (tu_cursor tu))))"
    by (intro exI conjI)
  have B: "\<forall>k t n. confirmed k t n \<longrightarrow> (\<exists>f. file_attr (location n) = Some f \<and> name f = k)"
  proof (intro allI impI)
    fix k t n assume "confirmed k t n"
    then show "\<exists>f. file_attr (location n) = Some f \<and> name f = k"
      by (cases "file_attr (location n)") (simp_all add: confirmed_def)
  qed
  from A B show ?thesis by (rule conjI)
qed

theorem references_by_unit_witness:
  "elements (PySet {ImmutableSourceLocation (mk_location ''/src/a.cpp'' 1 6 5),
                    ImmutableSourceLocation (mk_location ''/src/b.cpp'' 3 3 30)})
     = (\<Union>(k, tu)\<in>set (tunits ex_parser_ab).
          set (confirmed_locations k ex_entity_f (descendants (tu_cursor tu))))
   \<and> set (confirmed_locations ''/src/b.cpp'' ex_entity_f (descendants (tu_cursor ex_tu_b)))
     = {ImmutableSourceLocation (mk_location ''/src/b.cpp'' 3 3 30)}"
proof -
  have loaded: "''/src/a.cpp'' \<in> fst ` set (tunits ex_parser_ab)"
    by (simp add: ex_parser_ab_def)
  from references_by_unit [OF loaded ex_find_all_references]
  obtain tu0 cursor where m: "map_of (tunits ex_parser_ab) ''/src/a.cpp'' = Some tu0"
    and c: "ex_from_location tu0 (tu_spelling tu0) 1 6 = Inr cursor"
    and e: "elements (PySet {ImmutableSourceLocation (mk_location ''/src/a.cpp'' 1 6 5),
                 ImmutableSourceLocation (mk_location ''/src/b.cpp'' 3 3 30)}) =
                (\<Union>(k, tu)\<in>set (tunits ex_parser_ab).
                   set (confirmed_locations k
                          (case referenced cursor of Some t \<Rightarrow> t | None \<Rightarrow> cursor)
                          (descendants (tu_cursor tu))))"
    by blast
  from m have tu0: "tu0 = ex_tu_a" by (simp add: ex_parser_ab_def)
  from c have "cursor = ex_def_f"
    by (simp add: tu0 ex_tu_a_def ex_from_location_def)
  then have t: "(case referenced cursor of Some t \<Rightarrow> t | None \<Rightarrow> cursor) = ex_entity_f"
    by (simp add: ex_def_f_def)
  from e show ?thesis unfolding t using ex_unit_b_locations by (rule conjI)
qed

subsection \<open>Loading from disk\<close>

lemma set_update_subset: "set (AList.update k v al) \<subseteq> insert (k, v) (set al)"
  by (induction al) auto

lemma load_files_from_disk:
  "\<forall>(k, tu)\<in>set tus. \<exists>path. index_read os w path = Inr tu \<Longrightarrow>
   \<forall>(k, tu)\<in>set (snd (load_files os w root_dir dirpath files tus)).
      \<exists>path. index_read os w path = Inr tu"
proof (induction files arbitrary: tus)
  case Nil
  then show ?case by simp
next
  case (Cons f fs)
  show ?case
  proof (cases "snd (os_path_splitext f) = ''.ast''")
    case False
    then show ?thesis using Cons by (simp add: case_prod_unfold Let_def)
  next
    case True
    let ?p = "os_path_join dirpath f"
    let ?k = "drop (length root_dir) (take (length ?p - length ''.ast'') ?p)"
    show ?thesis
    proof (cases "index_read os w ?p")
      case (Inl e)
      with True Cons.prems show ?thesis by (simp add: case_prod_unfold Let_def)
    next
      case (Inr tu)
      have "\<forall>(k, tu)\<in>set (AList.update ?k tu tus). \<exists>path. index_read os w path = Inr tu"
        using Cons.prems Inr set_update_subset [of ?k tu tus] by blast
      from Cons.IH [OF this] True Inr show ?thesis by (simp add: case_prod_unfold Let_def)
    qed
  qed
qed

lemma load_walk_from_disk:
  "\<forall>(k, tu)\<in>set tus. \<exists>path. index_read os w path = Inr tu \<Longrightarrow>
   \<forall>(k, tu)\<in>set (snd (load_walk os w root_dir walk tus)).
      \<exists>path. index_read os w path = Inr tu"
proof (induction walk arbitrary: tus)
  case Nil
  then show ?case by simp
next
  case (Cons t walk)
  obtain dirpath dirs files where t: "t = (dirpath, dirs, files)" by (cases t)
  obtain e tus' where lf: "load_files os w root_dir dirpath files tus = (e, tus')"
    by (cases "load_files os w root_dir dirpath files tus")
  have inv: "\<forall>(k, tu)\<in>set tus'. \<exists>path. index_read os w path = Inr tu"
    using load_files_from_disk [OF Cons.prems, of root_dir dirpath files] lf by simp
  show ?case
  proof (cases e)
    case None
    with Cons.IH [OF inv] t lf show ?thesis by simp
  next
    case (Some x)
    with inv t lf show ?thesis by simp
  qed
qed

text \<open>
  C10. \<^verbatim>\<open>load_from_disk\<close> clears the store before it reads anything: on every file
  system, its result is that of loading into the emptied store, the entries afterwards
  are those that the loops stored starting from no entry, and each of them holds a
  unit read from the disk. Whether the method returns \<^verbatim>\<open>True\<close> or \<^verbatim>\<open>False\<close>, nothing of
  the units held before the call is kept or put back.
\<close>

theorem load_from_disk_replaces:
  "load_from_disk os w self root_dir
     = load_from_disk os w (drop_all_translation_units self) root_dir
   \<and> tunits (snd (load_from_disk os w self root_dir))
     = snd (load_walk os w root_dir (os_walk os w root_dir) [])
   \<and> (\<forall>(k, tu)\<in>set (tunits (snd (load_from_disk os w self root_dir))).
        \<exists>path. index_read os w path = Inr tu)"
proof -
  have a: "load_from_disk os w self root_dir
     = load_from_disk os w (drop_all_translation_units self) root_dir"
    by (simp add: load_from_disk_def drop_all_translation_units_def split: prod.splits option.splits)
  have b: "tunits (snd (load_from_disk os w self root_dir))
     = snd (load_walk os w root_dir (os_walk os w root_dir) [])"
    by (simp add: load_from_disk_def split: prod.splits option.splits)
  have "\<forall>(k, tu)\<in>set (snd (load_walk os w root_dir (os_walk os w root_dir) [])).
        \<exists>path. index_read os w path = Inr tu"
    by (rule load_walk_from_disk) simp
  with a b show ?thesis by simp
qed

lemma ex_load_corrupt:
  "load_from_disk ex_corrupt_ops () ex_parser_ab ''/idx''
     = (False, ex_parser_ab\<lparr>tunits := [(''/src/a.cpp'', ex_tu_a)]\<rparr>)"
  by (simp add: load_from_disk_def ex_corrupt_ops_def os_path_basename_def os_path_splitext_def
        os_path_join_def)

theorem load_from_disk_replaces_witness:
  "load_from_disk ex_corrupt_ops () ex_parser_ab ''/idx''
     = (False, ex_parser_ab\<lparr>tunits := [(''/src/a.cpp'', ex_tu_a)]\<rparr>)
   \<and> index_read ex_corrupt_ops () ''/idx/src/a.cpp.ast'' = Inr ex_tu_a
   \<and> map fst (tunits ex_parser_ab) = [''/src/a.cpp'', ''/src/b.cpp'']"
  using load_from_disk_replaces [of ex_corrupt_ops "()" ex_parser_ab "''/idx''"] ex_load_corrupt
  by (simp add: ex_corrupt_ops_def ex_parser_ab_def)

subsection \<open>Paths\<close>




lemma basename_slash_free: "CHR ''/'' \<notin> set (os_path_basename s)"
proof
  assume "CHR ''/'' \<in> set (os_path_basename s)"
  then have "CHR ''/'' \<in> set (takeWhile (\<lambda>c. c \<noteq> CHR ''/'') (rev s))"
    by (simp add: os_path_basename_def)
  then show False by (auto dest: set_takeWhileD)
qed

lemma split_first_slash:
  assumes "CHR ''/'' \<in> set s"
  shows "s = takeWhile (\<lambda>c. c \<noteq> CHR ''/'') s @ CHR ''/'' # tl (dropWhile (\<lambda>c. c \<noteq> CHR ''/'') s)"
proof -
  from assms have ne: "dropWhile (\<lambda>c. c \<noteq> CHR ''/'') s \<noteq> []" by simp
  then have "hd (dropWhile (\<lambda>c. c \<noteq> CHR ''/'') s) = CHR ''/''"
    using hd_dropWhile [of "\<lambda>c. c \<noteq> CHR ''/''" s] by simp
  with ne have "dropWhile (\<lambda>c. c \<noteq> CHR ''/'') s
      = CHR ''/'' # tl (dropWhile (\<lambda>c. c \<noteq> CHR ''/'') s)"
    by (cases "dropWhile (\<lambda>c. c \<noteq> CHR ''/'') s") simp_all
  then show ?thesis
    using takeWhile_dropWhile_id [of "\<lambda>c. c \<noteq> CHR ''/''" s] by simp
qed

lemma split_last_slash:
  assumes "CHR ''/'' \<in> set s"
  shows "s = butlast (rev (dropWhile (\<lambda>c. c \<noteq> CHR ''/'') (rev s))) @ CHR ''/'' # os_path_basename s"
proof -
  from assms have "CHR ''/'' \<in> set (rev s)" by simp
  from split_first_slash [OF this]
  have "rev s = rev (os_path_basename s) @ CHR ''/'' # tl (dropWhile (\<lambda>c. c \<noteq> CHR ''/'') (rev s))"
    by (simp add: os_path_basename_def)
  then have "s = rev (tl (dropWhile (\<lambda>c. c \<noteq> CHR ''/'') (rev s))) @ CHR ''/'' # os_path_basename s"
    by (metis rev_rev_ident rev_append rev.simps(2) append_Cons append_Nil append_assoc)
  moreover have "butlast (rev (dropWhile (\<lambda>c. c \<noteq> CHR ''/'') (rev s)))
      = rev (tl (dropWhile (\<lambda>c. c \<noteq> CHR ''/'') (rev s)))"
    by (simp add: butlast_rev)
  ultimately show ?thesis by simp
qed




lemma basename_append_noslash:
  assumes "CHR ''/'' \<notin> set y"
  shows "os_path_basename (x @ y) = os_path_basename x @ y"
proof -
  have "takeWhile (\<lambda>c. c \<noteq> CHR ''/'') (rev y @ rev x)
          = rev y @ takeWhile (\<lambda>c. c \<noteq> CHR ''/'') (rev x)"
    using assms by (intro takeWhile_append2) auto
  then show ?thesis by (simp add: os_path_basename_def)
qed

lemma dropWhile_rev_append_noslash:
  assumes "CHR ''/'' \<notin> set y"
  shows "dropWhile (\<lambda>c. c \<noteq> CHR ''/'') (rev (x @ y)) = dropWhile (\<lambda>c. c \<noteq> CHR ''/'') (rev x)"
proof -
  have "dropWhile (\<lambda>c. c \<noteq> CHR ''/'') (rev y @ rev x) = dropWhile (\<lambda>c. c \<noteq> CHR ''/'') (rev x)"
    using assms by (intro dropWhile_append2) auto
  then show ?thesis by simp
qed








subsection \<open>Saving and loading again\<close>








subsection \<open>The file system without symbolic links\<close>


lemma node_artifacts_File [simp]: "node_artifacts T (File c) = {}"
  by (simp add: node_artifacts_def artifact_paths_def)

lemma node_artifacts_Nil [simp]: "node_artifacts T (Dir []) = {}"
  by (simp add: node_artifacts_def artifact_paths_def)





lemma lookup_Cons_Dir:
  "lookup (x # xs) (Dir es) = (case map_of es x of None \<Rightarrow> None | Some m \<Rightarrow> lookup xs m)"
  by simp











































text \<open>
  More runs outside the hypotheses of the amended C4. With the directory given as
  \<^verbatim>\<open>/idx/\<close> the recovered keys lack their leading \<^verbatim>\<open>/\<close>; with keys that do not start
  with \<^verbatim>\<open>/\<close> the first character of each key is lost on saving, so that \<^verbatim>\<open>a.cpp\<close> and
  \<^verbatim>\<open>b.cpp\<close> share one artifact. The last run shows the walk of a directory given with
  a \<^verbatim>\<open>.\<close> at its end: the artifact left below it is found under the path as given.
\<close>

lemma ex_trailing_separator:
  "save_to_disk fs_ops (Dir []) ex_parser_ab ''/idx/'' = (True, ex_disk_saved)
   \<and> map fst (tunits (snd (load_from_disk fs_ops ex_disk_saved ex_fresh ''/idx/'')))
       = [''src/a.cpp'', ''src/b.cpp'']"
  by code_simp

lemma ex_relative_keys:
  "save_to_disk fs_ops (Dir [])
     \<lparr>tunits = [(''a.cpp'', ex_tu_a), (''b.cpp'', ex_tu_b)], default_args = []\<rparr> ''/idx''
     = (True, Dir [(''idx'', Dir [(''.cpp.ast'', File (Serialized ex_tu_b))])])
   \<and> map fst (tunits (snd (load_from_disk fs_ops
        (Dir [(''idx'', Dir [(''.cpp.ast'', File (Serialized ex_tu_b))])]) ex_fresh ''/idx'')))
       = [''/.cpp'']"
  by code_simp

lemma ex_dot_directory:
  "os_walk fs_ops ex_disk_stale ''/idx/.''
     = [(''/idx/.'', [''old''], []), (''/idx/./old'', [], [''c.cpp.ast''])]
   \<and> artifact_paths (os_walk fs_ops ex_disk_stale ''/idx/.'') = [''/idx/./old/c.cpp.ast'']"
  by code_simp

end
